theory Spec2Isabelle
  imports Complex_Main "HOL-Library.Sublist"
begin

section \<open>Python values\<close>

subsection \<open>Strings\<close>

text \<open>
  A Python \<^verbatim>\<open>str\<close> is a sequence of Unicode code points and \<^verbatim>\<open>len\<close> counts code
  points, so a string is a list of code point numbers. \<open>ascii\<close> embeds an ASCII literal.
  The emoji of the source are written by their code points; two of them carry the
  variation selector U+FE0F and are two code points long.
\<close>

type_synonym pystr = "nat list"

definition ascii :: "string \<Rightarrow> pystr" where
  "ascii s = map of_char s"

text \<open>\<^verbatim>\<open>s * n\<close>: a count of zero or less gives the empty string.\<close>

definition str_mul :: "pystr \<Rightarrow> int \<Rightarrow> pystr" where
  "str_mul s n = (if n \<le> 0 then [] else concat (replicate (nat n) s))"

text \<open>\<^verbatim>\<open>sep.join(xs)\<close>\<close>

fun str_join :: "pystr \<Rightarrow> pystr list \<Rightarrow> pystr" where
  "str_join sep [] = []"
| "str_join sep [x] = x"
| "str_join sep (x # y # ys) = x @ sep @ str_join sep (y # ys)"

text \<open>\<^verbatim>\<open>str(i)\<close> of an integer: decimal digits, with a minus sign when negative.\<close>

fun digits :: "nat \<Rightarrow> pystr" where
  "digits n = (if n < 10 then [48 + n] else digits (n div 10) @ [48 + n mod 10])"

declare digits.simps [simp del]

definition str_int :: "int \<Rightarrow> pystr" where
  "str_int i = (if i < 0 then 45 # digits (nat (- i)) else digits (nat i))"

subsection \<open>Parsed JSON\<close>

text \<open>
  The payload is what \<^verbatim>\<open>response.json()\<close> hands back: any JSON value, not only an object.
  A JSON number without fraction or exponent is a Python \<^verbatim>\<open>int\<close> (unbounded); any other
  number is a \<^verbatim>\<open>float\<close>, and Python's parser also accepts the literals for the two
  infinities and NaN. An object is a \<^verbatim>\<open>dict\<close> with string keys, written as an association
  list that \<open>map_of\<close> reads.
\<close>

datatype pyfloat = Finite real | PosInf | NegInf | NaN

datatype json =
    JNull
  | JBool bool
  | JInt int
  | JFloat pyfloat
  | JStr pystr
  | JList "json list"
  | JDict "(pystr \<times> json) list"

text \<open>Truth value testing, \<^verbatim>\<open>bool(x)\<close>, as \<^verbatim>\<open>if rating\<close> applies it.\<close>

fun float_bool :: "pyfloat \<Rightarrow> bool" where
  "float_bool (Finite r) = (r \<noteq> 0)"
| "float_bool PosInf = True"
| "float_bool NegInf = True"
| "float_bool NaN = True"

fun truthy :: "json \<Rightarrow> bool" where
  "truthy JNull = False"
| "truthy (JBool b) = b"
| "truthy (JInt i) = (i \<noteq> 0)"
| "truthy (JFloat x) = float_bool x"
| "truthy (JStr s) = (s \<noteq> [])"
| "truthy (JList xs) = (xs \<noteq> [])"
| "truthy (JDict kvs) = (kvs \<noteq> [])"

subsection \<open>Exceptions\<close>

text \<open>
  The exceptions that occur in this program: those its handlers name, \<^verbatim>\<open>KeyError\<close> of a
  missing environment variable, \<^verbatim>\<open>SystemExit\<close>, and three that no handler of the program
  names and that the interpreter and the libraries raise: \<^verbatim>\<open>ValueError\<close>,
  \<^verbatim>\<open>RecursionError\<close> and \<^verbatim>\<open>UnicodeEncodeError\<close>.
\<close>

datatype exn =
    AttributeError
  | TypeError
  | ValueError
  | RecursionError
  | UnicodeEncodeError
  | KeyError pystr
  | RequestException pystr
  | SystemExit int

subsection \<open>Rendering in an f-string\<close>

text \<open>
  The interpreter refuses to turn an integer of more than \<^verbatim>\<open>sys.int_max_str_digits\<close>
  decimal digits into a string and raises \<^verbatim>\<open>ValueError\<close>; the default limit is 4300 digits,
  the sign not counted, so it is reached from \<open>10 ^ 4300\<close> on.
\<close>

definition int_max_str_digits :: nat where
  "int_max_str_digits = 4300"

text \<open>
  \<^verbatim>\<open>f"{x}"\<close>, which is \<^verbatim>\<open>format(x, "")\<close>: the decimal digits of an integer within the
  limit, a string as it is, and \<^verbatim>\<open>repr(x)\<close> for a float, a list or a dict. The shortest
  round-trip digits of a float and the quoting of strings inside a container are the
  interpreter's, and \<^verbatim>\<open>repr\<close> of a container raises for an integer beyond the limit inside
  it and for nesting that is too deep. So \<^verbatim>\<open>repr\<close> comes in as the parameter \<open>py_repr\<close>,
  which returns a string or raises, and every result below holds for whatever it does.
\<close>

fun py_format :: "(json \<Rightarrow> exn + pystr) \<Rightarrow> json \<Rightarrow> exn + pystr" where
  "py_format py_repr JNull = Inr (ascii ''None'')"
| "py_format py_repr (JBool b) = Inr (if b then ascii ''True'' else ascii ''False'')"
| "py_format py_repr (JInt i) =
     (if 10 ^ int_max_str_digits \<le> \<bar>i\<bar> then Inl ValueError else Inr (str_int i))"
| "py_format py_repr (JStr s) = Inr s"
| "py_format py_repr (JFloat x) = py_repr (JFloat x)"
| "py_format py_repr (JList xs) = py_repr (JList xs)"
| "py_format py_repr (JDict kvs) = py_repr (JDict kvs)"

subsection \<open>Dictionary lookup\<close>

text \<open>
  \<^verbatim>\<open>x.get(key, default)\<close>: only a dict has the method; on \<^verbatim>\<open>None\<close>, a number, a string
  or a list the attribute lookup raises \<^verbatim>\<open>AttributeError\<close>.
\<close>

fun dict_get :: "json \<Rightarrow> pystr \<Rightarrow> json \<Rightarrow> exn + json" where
  "dict_get (JDict kvs) k d = Inr (case map_of kvs k of None \<Rightarrow> d | Some v \<Rightarrow> v)"
| "dict_get JNull k d = Inl AttributeError"
| "dict_get (JBool b) k d = Inl AttributeError"
| "dict_get (JInt i) k d = Inl AttributeError"
| "dict_get (JFloat x) k d = Inl AttributeError"
| "dict_get (JStr s) k d = Inl AttributeError"
| "dict_get (JList xs) k d = Inl AttributeError"

section \<open>Constants and the title/value pair\<close>

definition WIDTH_JUSTIFICATION_SEPARATOR :: pystr where
  "WIDTH_JUSTIFICATION_SEPARATOR = ascii ''.''"

record TitleAndValue =
  title :: pystr
  value' :: pystr

section \<open>The formatter\<close>

text \<open>
  \<^verbatim>\<open>get_adjusted_line(stat, max_line_length)\<close>: the width is a Python integer, so it may
  be small or negative; the separator run is then \<^verbatim>\<open>"." * spacing\<close> for a spacing of
  zero or less.
\<close>

definition get_adjusted_line :: "TitleAndValue \<Rightarrow> int \<Rightarrow> pystr" where
  "get_adjusted_line stat max_line_length =
     (let spacing = max_line_length - (int (length (title stat)) + int (length (value' stat)) + 2);
          separator = ascii '' '' @ str_mul WIDTH_JUSTIFICATION_SEPARATOR spacing @ ascii '' ''
      in title stat @ separator @ value' stat)"

section \<open>The rating extractor\<close>

text \<open>
  \<^verbatim>\<open>get_rating_line(stats_key, chess_emoji, chess_format, chess_stats)\<close>. The body of the
  \<^verbatim>\<open>try\<close> is the chain of three \<^verbatim>\<open>.get\<close> calls and the rendering, each of which may raise;
  the handler catches \<^verbatim>\<open>AttributeError\<close> and \<^verbatim>\<open>TypeError\<close> and lets any other exception
  through.
\<close>

definition get_rating_line ::
    "(json \<Rightarrow> exn + pystr) \<Rightarrow> pystr \<Rightarrow> pystr \<Rightarrow> pystr \<Rightarrow> json \<Rightarrow> exn + TitleAndValue" where
  "get_rating_line py_repr stats_key chess_emoji chess_format chess_stats =
     (let attempt =
        (case dict_get chess_stats stats_key (JDict []) of
           Inl e \<Rightarrow> Inl e
         | Inr data \<Rightarrow>
             (let field = (if chess_format = ascii ''Tactics'' then ascii ''highest''
                           else ascii ''last'')
              in case dict_get data field (JDict []) of
                   Inl e \<Rightarrow> Inl e
                 | Inr inner \<Rightarrow>
                     (case dict_get inner (ascii ''rating'') JNull of
                        Inl e \<Rightarrow> Inl e
                      | Inr rating \<Rightarrow>
                          (if truthy rating
                           then (case py_format py_repr rating of
                                   Inl e \<Rightarrow> Inl e
                                 | Inr shown \<Rightarrow> Inr (shown @ ascii '' '' @ [0x1F4C8]))
                           else Inr (ascii ''N/A'')))))
      in case attempt of
           Inr rating_str \<Rightarrow>
             Inr \<lparr>title = chess_emoji @ ascii '' '' @ chess_format, value' = rating_str\<rparr>
         | Inl e \<Rightarrow>
             (if e = AttributeError \<or> e = TypeError
              then Inr \<lparr>title = chess_emoji @ ascii '' '' @ chess_format,
                        value' = ascii ''N/A''\<rparr>
              else Inl e))"

subsection \<open>The lookup path in the specification's words\<close>

text \<open>
  The specification writes the rating as \<open>payload[statsKey][field]["rating"]\<close> and calls it
  missing when a key is missing or a step of the path is not a mapping. \<open>subscript\<close> is one
  such step and \<open>rating_at\<close> the whole path; the extractor is compared with them below.
\<close>

fun subscript :: "json \<Rightarrow> pystr \<Rightarrow> json option" where
  "subscript (JDict kvs) k = map_of kvs k"
| "subscript JNull k = None"
| "subscript (JBool b) k = None"
| "subscript (JInt i) k = None"
| "subscript (JFloat x) k = None"
| "subscript (JStr s) k = None"
| "subscript (JList xs) k = None"

definition rating_at :: "json \<Rightarrow> pystr \<Rightarrow> pystr \<Rightarrow> json option" where
  "rating_at payload statsKey field =
     (case subscript payload statsKey of
        None \<Rightarrow> None
      | Some formatStats \<Rightarrow>
          (case subscript formatStats field of
             None \<Rightarrow> None
           | Some entry \<Rightarrow> subscript entry (ascii ''rating'')))"


section \<open>The process and the network\<close>

text \<open>
  What the program touches outside itself: the environment variables, the lines printed,
  and the HTTP exchanges. \<open>sent\<close> records every request handed to the HTTP library, in
  order, so a run that makes no network call leaves it as it was. \<open>server\<close> stands for
  the library and the network behind it: from the requests already made and the current
  one it decides how the call ends. The call fails before the request is written (the
  request cannot be prepared, the host is not reached), or it fails later (the connection
  breaks, the answer does not come in time), or a response comes back. The exception of a
  failure is any exception: the library wraps most in its \<^verbatim>\<open>RequestException\<close>, not all.
  Standard output is taken to accept every string.
\<close>

type_synonym headers = "(pystr \<times> pystr) list"

datatype http_request =
    HttpGet pystr headers int
  | HttpPatch pystr json headers int

text \<open>
  A response as this program reads it: the status code, the text of the error that
  \<^verbatim>\<open>raise_for_status\<close> builds for an error status, and what \<^verbatim>\<open>json()\<close> ends with: the
  parsed value, or the exception it raises (the library's \<^verbatim>\<open>JSONDecodeError\<close>, which is a
  \<^verbatim>\<open>RequestException\<close>, for a body that is not JSON; the decoder's own \<^verbatim>\<open>ValueError\<close> for
  an integer beyond the digit limit and \<^verbatim>\<open>RecursionError\<close> for nesting too deep).
\<close>

record response =
  status_code :: int
  status_error :: pystr
  json_body :: "exn + json"

datatype http_outcome = FailedBefore exn | FailedAfter exn | Responded response

record world =
  environ :: "pystr \<rightharpoonup> pystr"
  stdout :: "pystr list"
  sent :: "http_request list"
  server :: "http_request list \<Rightarrow> http_request \<Rightarrow> http_outcome"

definition py_print :: "pystr \<Rightarrow> world \<Rightarrow> world" where
  "py_print s w = w\<lparr>stdout := stdout w @ [s]\<rparr>"

text \<open>\<^verbatim>\<open>os.environ[key]\<close> raises \<^verbatim>\<open>KeyError\<close> for a variable that is not set.\<close>

definition environ_index :: "pystr \<Rightarrow> world \<Rightarrow> exn + pystr" where
  "environ_index k w = (case environ w k of None \<Rightarrow> Inl (KeyError k) | Some v \<Rightarrow> Inr v)"

subsection \<open>The HTTP client library\<close>

text \<open>
  The calls into the \<^verbatim>\<open>requests\<close> library. When the request is written, the header
  names are encoded as ASCII and the header values as Latin-1; a character outside raises
  \<^verbatim>\<open>UnicodeEncodeError\<close>, which the library does not wrap. Both URLs are \<^verbatim>\<open>https\<close>, so the
  host is reached before the request is written. \<^verbatim>\<open>raise_for_status\<close> raises a
  \<^verbatim>\<open>RequestException\<close> (an \<^verbatim>\<open>HTTPError\<close>) for a status from 400 to 599 and nothing
  otherwise.
\<close>

fun request_headers :: "http_request \<Rightarrow> headers" where
  "request_headers (HttpGet url hdrs timeout) = hdrs"
| "request_headers (HttpPatch url body hdrs timeout) = hdrs"

definition latin1 :: "pystr \<Rightarrow> bool" where
  "latin1 s = list_all (\<lambda>c. c < 256) s"

definition headers_encode :: "headers \<Rightarrow> bool" where
  "headers_encode hdrs = list_all (\<lambda>(name, v). list_all (\<lambda>c. c < 128) name \<and> latin1 v) hdrs"

definition http_send :: "http_request \<Rightarrow> world \<Rightarrow> (exn + response) \<times> world" where
  "http_send rq w =
     (let w' = w\<lparr>sent := sent w @ [rq]\<rparr>
      in case server w (sent w) rq of
           FailedBefore e \<Rightarrow> (Inl e, w')
         | FailedAfter e \<Rightarrow>
             if headers_encode (request_headers rq) then (Inl e, w')
             else (Inl UnicodeEncodeError, w')
         | Responded r \<Rightarrow>
             if headers_encode (request_headers rq) then (Inr r, w')
             else (Inl UnicodeEncodeError, w'))"

definition requests_get :: "pystr \<Rightarrow> headers \<Rightarrow> int \<Rightarrow> world \<Rightarrow> (exn + response) \<times> world" where
  "requests_get url hdrs timeout w = http_send (HttpGet url hdrs timeout) w"

definition requests_patch ::
    "pystr \<Rightarrow> json \<Rightarrow> headers \<Rightarrow> int \<Rightarrow> world \<Rightarrow> (exn + response) \<times> world" where
  "requests_patch url body hdrs timeout w = http_send (HttpPatch url body hdrs timeout) w"

definition raise_for_status :: "response \<Rightarrow> exn + unit" where
  "raise_for_status r =
     (if 400 \<le> status_code r \<and> status_code r < 600
      then Inl (RequestException (status_error r)) else Inr ())"

definition response_json :: "response \<Rightarrow> exn + json" where
  "response_json r = json_body r"

section \<open>Configuration\<close>

definition GIST_TITLE :: pystr where
  "GIST_TITLE = [0x265F, 0xFE0E] @ ascii '' Chess.com Ratings''"

definition ENV_VAR_GIST_ID :: pystr where
  "ENV_VAR_GIST_ID = ascii ''GIST_ID''"

definition ENV_VAR_GITHUB_TOKEN :: pystr where
  "ENV_VAR_GITHUB_TOKEN = ascii ''GH_TOKEN''"

definition ENV_VAR_CHESS_COM_USERNAME :: pystr where
  "ENV_VAR_CHESS_COM_USERNAME = ascii ''CHESS_COM_USERNAME''"

definition REQUIRED_ENVS :: "pystr list" where
  "REQUIRED_ENVS = [ENV_VAR_GIST_ID, ENV_VAR_GITHUB_TOKEN, ENV_VAR_CHESS_COM_USERNAME]"

text \<open>\<^verbatim>\<open>STATS_URL.format(user=user)\<close>\<close>

definition STATS_URL :: "pystr \<Rightarrow> pystr" where
  "STATS_URL user = ascii ''https://api.chess.com/pub/player/'' @ user @ ascii ''/stats''"

text \<open>
  \<^verbatim>\<open>validate_and_init()\<close>: \<^verbatim>\<open>not os.environ.get(env)\<close> holds for a variable that is not
  set and for one set to the empty string.
\<close>

definition validate_and_init :: "world \<Rightarrow> bool \<times> world" where
  "validate_and_init w =
     (let env_vars_absent =
            filter (\<lambda>env. case environ w env of None \<Rightarrow> True | Some v \<Rightarrow> v = []) REQUIRED_ENVS
      in if env_vars_absent \<noteq> []
         then (False,
               py_print (ascii ''Error: Missing environment variables: ''
                           @ str_join (ascii '', '') env_vars_absent) w)
         else (True, w))"

section \<open>The stats fetcher\<close>

text \<open>
  \<^verbatim>\<open>get_chess_com_stats(user)\<close>: the three calls of the \<^verbatim>\<open>try\<close> body, and the handler,
  which catches \<^verbatim>\<open>RequestException\<close> alone.
\<close>

definition get_chess_com_stats :: "pystr \<Rightarrow> world \<Rightarrow> (exn + json) \<times> world" where
  "get_chess_com_stats user w =
     (let hdrs = [(ascii ''User-Agent'', ascii ''chess-com-box-py (@'' @ user @ ascii '')'')];
          (attempt, w1) =
            (case requests_get (STATS_URL user) hdrs 10 w of
               (Inl e, w1) \<Rightarrow> (Inl e, w1)
             | (Inr resp, w1) \<Rightarrow>
                 (case raise_for_status resp of
                    Inl e \<Rightarrow> (Inl e, w1)
                  | Inr u \<Rightarrow> (response_json resp, w1)))
      in case attempt of
           Inr payload \<Rightarrow> (Inr payload, w1)
         | Inl (RequestException e) \<Rightarrow>
             (Inr (JDict []), py_print (ascii ''Error fetching Chess.com stats: '' @ e) w1)
         | Inl e \<Rightarrow> (Inl e, w1))"

section \<open>The gist updater\<close>

definition update_gist :: "pystr \<Rightarrow> pystr \<Rightarrow> world \<Rightarrow> (exn + unit) \<times> world" where
  "update_gist title' content w =
     (case environ_index ENV_VAR_GITHUB_TOKEN w of
        Inl e \<Rightarrow> (Inl e, w)
      | Inr access_token \<Rightarrow>
          (case environ_index ENV_VAR_GIST_ID w of
             Inl e \<Rightarrow> (Inl e, w)
           | Inr gist_id \<Rightarrow>
               (let hdrs = [(ascii ''Authorization'', ascii ''Bearer '' @ access_token),
                            (ascii ''Accept'', ascii ''application/vnd.github.v3+json'')];
                    payload = JDict [(ascii ''files'',
                                JDict [(title', JDict [(ascii ''content'', JStr content)])])];
                    (attempt, w1) =
                      (case requests_patch (ascii ''https://api.github.com/gists/'' @ gist_id)
                              payload hdrs 10 w of
                         (Inl e, w1) \<Rightarrow> (Inl e, w1)
                       | (Inr r, w1) \<Rightarrow>
                           (case raise_for_status r of
                              Inl e \<Rightarrow> (Inl e, w1)
                            | Inr u \<Rightarrow>
                                (Inr (),
                                 py_print (ascii ''Successfully updated Gist:'' @ [10] @ content) w1)))
                in case attempt of
                     Inr u \<Rightarrow> (Inr (), w1)
                   | Inl (RequestException e) \<Rightarrow>
                       (Inr (), py_print (ascii ''Error updating GitHub Gist: '' @ e) w1)
                   | Inl e \<Rightarrow> (Inl e, w1))))"

section \<open>The orchestrator\<close>

text \<open>The list \<^verbatim>\<open>configs\<close> of \<^verbatim>\<open>main\<close>: key, emoji, label and line width.\<close>

definition configs :: "(pystr \<times> pystr \<times> pystr \<times> int) list" where
  "configs =
     [(ascii ''chess_blitz'', [0x26A1], ascii ''Blitz'', 52),
      (ascii ''chess_bullet'', [0x1F685], ascii ''Bullet'', 52),
      (ascii ''chess_rapid'', [0x23F2, 0xFE0F], ascii ''Rapid'', 53),
      (ascii ''tactics'', [0x1F9E9], ascii ''Tactics'', 52),
      (ascii ''chess_daily'', [0x2600, 0xFE0F], ascii ''Daily'', 53)]"

text \<open>The \<^verbatim>\<open>for\<close> loop of \<^verbatim>\<open>main\<close>, with \<^verbatim>\<open>lines\<close> as the accumulator.\<close>

fun format_lines ::
    "(json \<Rightarrow> exn + pystr) \<Rightarrow> (pystr \<times> pystr \<times> pystr \<times> int) list \<Rightarrow> json \<Rightarrow> pystr list
       \<Rightarrow> exn + pystr list" where
  "format_lines py_repr [] stats lines = Inr lines"
| "format_lines py_repr ((key, emoji, label, width) # rest) stats lines =
     (case get_rating_line py_repr key emoji label stats of
        Inl e \<Rightarrow> Inl e
      | Inr stat_line \<Rightarrow>
          format_lines py_repr rest stats (lines @ [get_adjusted_line stat_line width]))"

text \<open>\<^verbatim>\<open>main()\<close>; \<^verbatim>\<open>sys.exit(1)\<close> raises \<^verbatim>\<open>SystemExit(1)\<close>.\<close>

definition main :: "(json \<Rightarrow> exn + pystr) \<Rightarrow> world \<Rightarrow> (exn + unit) \<times> world" where
  "main py_repr w =
     (case validate_and_init w of
        (False, w1) \<Rightarrow> (Inl (SystemExit 1), w1)
      | (True, w1) \<Rightarrow>
          (case environ_index ENV_VAR_CHESS_COM_USERNAME w1 of
             Inl e \<Rightarrow> (Inl e, w1)
           | Inr username \<Rightarrow>
               (case get_chess_com_stats username w1 of
                  (Inl e, w2) \<Rightarrow> (Inl e, w2)
                | (Inr stats, w2) \<Rightarrow>
                    (case format_lines py_repr configs stats [] of
                       Inl e \<Rightarrow> (Inl e, w2)
                     | Inr lines \<Rightarrow> update_gist GIST_TITLE (str_join [10] lines) w2))))"

subsection \<open>The script\<close>

text \<open>
  The block under \<^verbatim>\<open>if __name__ == "__main__"\<close>. \<open>cli_override\<close> is its test of
  \<^verbatim>\<open>len(sys.argv)\<close> with the three assignments to \<^verbatim>\<open>os.environ\<close>. The two clock readings
  are not modelled: the text of their difference, which the last line prints, is the
  parameter \<open>elapsed\<close>.
\<close>

definition cli_override :: "pystr list \<Rightarrow> world \<Rightarrow> world" where
  "cli_override argv w =
     (if length argv = 5
      then w\<lparr>environ := (environ w)(ENV_VAR_GIST_ID \<mapsto> argv ! 2,
                                    ENV_VAR_GITHUB_TOKEN \<mapsto> argv ! 3,
                                    ENV_VAR_CHESS_COM_USERNAME \<mapsto> argv ! 4)\<rparr>
      else w)"

definition script ::
    "(json \<Rightarrow> exn + pystr) \<Rightarrow> pystr \<Rightarrow> pystr list \<Rightarrow> world \<Rightarrow> (exn + unit) \<times> world" where
  "script py_repr elapsed argv w =
     (case main py_repr (cli_override argv w) of
        (Inl e, w1) \<Rightarrow> (Inl e, w1)
      | (Inr u, w1) \<Rightarrow>
          (Inr (), py_print (ascii ''Executed in '' @ elapsed @ ascii '' seconds.'') w1))"

text \<open>
  The exit status of the process: 0 when the script runs to its end, the argument of
  \<^verbatim>\<open>SystemExit\<close>, and 1 for any other exception that leaves the script.
\<close>

definition exit_status :: "exn + unit \<Rightarrow> int" where
  "exit_status r = (case r of Inr u \<Rightarrow> 0 | Inl (SystemExit n) \<Rightarrow> n | Inl e \<Rightarrow> 1)"

section \<open>Example inputs\<close>

text \<open>
  A \<^verbatim>\<open>repr\<close> for the closed examples. Their ratings are integers or absent, so no example
  calls it.
\<close>

definition repr_unused :: "json \<Rightarrow> exn + pystr" where
  "repr_unused v = Inr []"

definition blitz_payload :: "int \<Rightarrow> json" where
  "blitz_payload r =
     JDict [(ascii ''chess_blitz'', JDict [(ascii ''last'', JDict [(ascii ''rating'', JInt r)])])]"

definition tactics_payload :: "int \<Rightarrow> json" where
  "tactics_payload r =
     JDict [(ascii ''tactics'', JDict [(ascii ''highest'', JDict [(ascii ''rating'', JInt r)])])]"

text \<open>An integer of 4301 digits, the first that the digit limit refuses.\<close>

definition huge_rating :: int where
  "huge_rating = 10 ^ 4300"

text \<open>
  Two servers and two processes for the closed examples: a server that refuses every
  connection, and one that answers every request with a given status and a given outcome
  of \<^verbatim>\<open>json()\<close>; a process with no environment variable set and one with all three set.
\<close>

definition refusing_server :: "http_request list \<Rightarrow> http_request \<Rightarrow> http_outcome" where
  "refusing_server earlier rq = FailedBefore (RequestException (ascii ''connection refused''))"

definition answering_server ::
    "int \<Rightarrow> exn + json \<Rightarrow> http_request list \<Rightarrow> http_request \<Rightarrow> http_outcome" where
  "answering_server status body earlier rq =
     Responded \<lparr>status_code = status, status_error = [], json_body = body\<rparr>"

definition bare_world :: "(http_request list \<Rightarrow> http_request \<Rightarrow> http_outcome) \<Rightarrow> world" where
  "bare_world srv = \<lparr>environ = Map.empty, stdout = [], sent = [], server = srv\<rparr>"

definition configured_world :: "(http_request list \<Rightarrow> http_request \<Rightarrow> http_outcome) \<Rightarrow> world" where
  "configured_world srv =
     \<lparr>environ = [ENV_VAR_GIST_ID \<mapsto> ascii ''0123abcd'',
                 ENV_VAR_GITHUB_TOKEN \<mapsto> ascii ''ghp_token'',
                 ENV_VAR_CHESS_COM_USERNAME \<mapsto> ascii ''erik''],
      stdout = [], sent = [], server = srv\<rparr>"

section \<open>Properties of the formatter\<close>

lemma length_ascii: "length (ascii s) = length s"
  by (simp add: ascii_def)

lemma length_separator_run:
  "int (length (str_mul WIDTH_JUSTIFICATION_SEPARATOR n)) = (if n \<le> 0 then 0 else n)"
  by (simp add: str_mul_def WIDTH_JUSTIFICATION_SEPARATOR_def ascii_def length_concat
      sum_list_replicate)

lemma length_get_adjusted_line:
  "int (length (get_adjusted_line stat w)) =
     int (length (title stat)) + int (length (value' stat)) + 2
       + (if w - (int (length (title stat)) + int (length (value' stat)) + 2) \<le> 0 then 0
          else w - (int (length (title stat)) + int (length (value' stat)) + 2))"
  using length_separator_run [of "w - (int (length (title stat)) + int (length (value' stat)) + 2)"]
  by (simp add: get_adjusted_line_def Let_def length_ascii)

text \<open>
  C2. When the target width is at least \<open>len(title) + len(value) + 3\<close> (the two boundary
  spaces and one separator character), the line returned by \<open>get_adjusted_line\<close> for the
  pair \<open>TitleAndValue(title, value)\<close> is exactly the target width long.
\<close>

theorem get_adjusted_line_length:
  "int (length t) + int (length v) + 3 \<le> w \<Longrightarrow>
     int (length (get_adjusted_line \<lparr>title = t, value' = v\<rparr> w)) = w"
  by (simp add: length_get_adjusted_line)

theorem get_adjusted_line_length_witness:
  "int (length (ascii ''Blitz'')) + int (length (ascii ''N/A'')) + 3 \<le> 52 \<and>
   int (length (get_adjusted_line \<lparr>title = ascii ''Blitz'', value' = ascii ''N/A''\<rparr> 52)) = 52"
  using get_adjusted_line_length [of "ascii ''Blitz''" "ascii ''N/A''" 52]
  by (simp add: length_ascii)

text \<open>
  C9, as stated, asks that a width below \<open>len(title) + len(value) + 3\<close> never gives a line
  longer than the width. The title \<open>ab\<close> and the value \<open>cd\<close> at width 3 give the six
  characters \<open>ab  cd\<close>.
\<close>

theorem get_adjusted_line_narrow_counterexample:
  "get_adjusted_line \<lparr>title = ascii ''ab'', value' = ascii ''cd''\<rparr> 3 = ascii ''ab  cd'' \<and>
   3 < int (length (get_adjusted_line \<lparr>title = ascii ''ab'', value' = ascii ''cd''\<rparr> 3))"
  by (simp add: get_adjusted_line_def Let_def str_mul_def ascii_def)

text \<open>
  C9, amended. For a width below \<open>len(title) + len(value) + 3\<close> the separator run is empty
  (a repeat count of zero or less gives the empty string, nothing is raised) and the line is
  the title, two spaces and the value: \<open>len(title) + len(value) + 2\<close> characters, which is
  the width only when the width is exactly that number, and more than the width below it.
\<close>

theorem get_adjusted_line_narrow:
  "w < int (length t) + int (length v) + 3 \<Longrightarrow>
     str_mul WIDTH_JUSTIFICATION_SEPARATOR (w - (int (length t) + int (length v) + 2)) = [] \<and>
     get_adjusted_line \<lparr>title = t, value' = v\<rparr> w = t @ ascii ''  '' @ v \<and>
     int (length (get_adjusted_line \<lparr>title = t, value' = v\<rparr> w)) = int (length t) + int (length v) + 2 \<and>
     w \<le> int (length (get_adjusted_line \<lparr>title = t, value' = v\<rparr> w))"
  by (simp add: get_adjusted_line_def Let_def str_mul_def ascii_def)

theorem get_adjusted_line_narrow_witness:
  "(3::int) < int (length (ascii ''ab'')) + int (length (ascii ''cd'')) + 3 \<and>
   str_mul WIDTH_JUSTIFICATION_SEPARATOR (3 - (int (length (ascii ''ab'')) + int (length (ascii ''cd'')) + 2)) = [] \<and>
   get_adjusted_line \<lparr>title = ascii ''ab'', value' = ascii ''cd''\<rparr> 3 = ascii ''ab'' @ ascii ''  '' @ ascii ''cd'' \<and>
   int (length (get_adjusted_line \<lparr>title = ascii ''ab'', value' = ascii ''cd''\<rparr> 3)) = 6"
  using get_adjusted_line_narrow [of 3 "ascii ''ab''" "ascii ''cd''"]
  by (simp add: length_ascii)

section \<open>Properties of the rating extractor\<close>

lemma dict_get_Inl:
  "dict_get j k d = Inl e \<Longrightarrow> e = AttributeError \<and> subscript j k' = None"
  by (cases j) simp_all

lemma dict_get_Inr:
  "dict_get j k d = Inr v \<Longrightarrow> v = (case subscript j k of None \<Rightarrow> d | Some x \<Rightarrow> x)"
  by (cases j) simp_all

lemma subscript_empty: "subscript (JDict []) k = None"
  by simp

lemma get_rating_line_rating_at:
  "get_rating_line py_repr k e f p =
     (case rating_at p k (if f = ascii ''Tactics'' then ascii ''highest'' else ascii ''last'') of
        None \<Rightarrow> Inr \<lparr>title = e @ ascii '' '' @ f, value' = ascii ''N/A''\<rparr>
      | Some rating \<Rightarrow>
          if truthy rating
          then (case py_format py_repr rating of
                  Inl x \<Rightarrow>
                    if x = AttributeError \<or> x = TypeError
                    then Inr \<lparr>title = e @ ascii '' '' @ f, value' = ascii ''N/A''\<rparr>
                    else Inl x
                | Inr shown \<Rightarrow>
                    Inr \<lparr>title = e @ ascii '' '' @ f, value' = shown @ ascii '' '' @ [0x1F4C8]\<rparr>)
          else Inr \<lparr>title = e @ ascii '' '' @ f, value' = ascii ''N/A''\<rparr>)"
proof -
  define fld where "fld = (if f = ascii ''Tactics'' then ascii ''highest'' else ascii ''last'')"
  define render where
    "render rating =
       (if truthy rating
        then (case py_format py_repr rating of
                Inl x \<Rightarrow> Inl x
              | Inr shown \<Rightarrow> Inr (shown @ ascii '' '' @ [0x1F4C8]))
        else Inr (ascii ''N/A''))" for rating
  define attempt where
    "attempt = (case dict_get p k (JDict []) of
           Inl x \<Rightarrow> Inl x
         | Inr data \<Rightarrow>
             (case dict_get data fld (JDict []) of
                   Inl x \<Rightarrow> Inl x
                 | Inr inner \<Rightarrow>
                     (case dict_get inner (ascii ''rating'') JNull of
                        Inl x \<Rightarrow> Inl x
                      | Inr rating \<Rightarrow> render rating)))"
  have unfolded: "get_rating_line py_repr k e f p =
      (case attempt of
         Inr rating_str \<Rightarrow> Inr \<lparr>title = e @ ascii '' '' @ f, value' = rating_str\<rparr>
       | Inl x \<Rightarrow> if x = AttributeError \<or> x = TypeError
                  then Inr \<lparr>title = e @ ascii '' '' @ f, value' = ascii ''N/A''\<rparr> else Inl x)"
    unfolding get_rating_line_def attempt_def fld_def render_def Let_def by (rule refl)
  have attempt_eq: "attempt = Inl AttributeError \<and> rating_at p k fld = None
      \<or> attempt = (case rating_at p k fld of None \<Rightarrow> Inr (ascii ''N/A'') | Some r \<Rightarrow> render r)"
  proof (cases "dict_get p k (JDict [])")
    case (Inl x)
    from dict_get_Inl [OF Inl, of k] show ?thesis
      by (simp add: attempt_def Inl rating_at_def)
  next
    case (Inr data)
    note d1 = dict_get_Inr [OF Inr]
    show ?thesis
    proof (cases "dict_get data fld (JDict [])")
      case (Inl x)
      from dict_get_Inl [OF Inl, of fld] have x: "x = AttributeError" and s: "subscript data fld = None"
        by simp_all
      have "rating_at p k fld = None"
        using d1 s by (auto simp: rating_at_def split: option.splits)
      then show ?thesis by (simp add: attempt_def Inr Inl x)
    next
      case inner: (Inr inner)
      note d2 = dict_get_Inr [OF inner]
      show ?thesis
      proof (cases "dict_get inner (ascii ''rating'') JNull")
        case (Inl x)
        from dict_get_Inl [OF Inl, of "ascii ''rating''"]
        have x: "x = AttributeError" and s: "subscript inner (ascii ''rating'') = None"
          by simp_all
        have "rating_at p k fld = None"
          using d1 d2 s by (auto simp: rating_at_def split: option.splits)
        then show ?thesis by (simp add: attempt_def Inr inner Inl x)
      next
        case rating: (Inr rating)
        note d3 = dict_get_Inr [OF rating]
        have "render rating =
            (case rating_at p k fld of None \<Rightarrow> Inr (ascii ''N/A'') | Some r \<Rightarrow> render r)"
          using d1 d2 d3 by (auto simp: rating_at_def render_def split: option.splits)
        then show ?thesis by (simp add: attempt_def Inr inner rating)
      qed
    qed
  qed
  show ?thesis
    using attempt_eq unfolding unfolded fld_def [symmetric]
    by (auto simp: render_def split: option.splits sum.splits)
qed

lemma py_format_int:
  "py_format py_repr (JInt i) =
     (if 10 ^ int_max_str_digits \<le> \<bar>i\<bar> then Inl ValueError else Inr (str_int i))"
  by simp

lemma huge_rating_beyond_limit: "10 ^ int_max_str_digits \<le> \<bar>huge_rating\<bar>"
  unfolding huge_rating_def int_max_str_digits_def
  by (simp only: power_abs abs_numeral order_refl)

lemma small_int_within_limit:
  assumes "\<bar>i :: int\<bar> < 10000"
  shows "\<not> 10 ^ int_max_str_digits \<le> \<bar>i\<bar>"
proof -
  have "4 \<le> int_max_str_digits"
    by (simp add: int_max_str_digits_def)
  then have "(10::int) ^ 4 \<le> 10 ^ int_max_str_digits"
    by (rule power_increasing) simp
  moreover have "(10::int) ^ 4 = 10000"
    by simp
  ultimately show ?thesis
    using assms by linarith
qed

lemma huge_rating_truthy: "truthy (JInt huge_rating)"
proof -
  have "(0::int) < 10 ^ int_max_str_digits" by simp
  with huge_rating_beyond_limit have "huge_rating \<noteq> 0" by linarith
  then show ?thesis by simp
qed

lemma huge_rating_nonzero: "huge_rating \<noteq> 0"
  using huge_rating_truthy by simp

lemma within_limit_iff: "\<bar>i :: int\<bar> < 10 ^ int_max_str_digits \<longleftrightarrow> \<not> 10 ^ int_max_str_digits \<le> \<bar>i\<bar>"
  by linarith




text \<open>
  C3. The rating is read at \<open>payload[statsKey]["highest"]["rating"]\<close> exactly when the format
  label is \<open>Tactics\<close>, and at \<open>payload[statsKey]["last"]["rating"]\<close> for every other label:
  the result is a function of what stands at that one path.
\<close>

theorem get_rating_line_field_selection:
  "get_rating_line py_repr statsKey emoji formatLabel payload =
     (case rating_at payload statsKey
             (if formatLabel = ascii ''Tactics'' then ascii ''highest'' else ascii ''last'') of
        None \<Rightarrow> Inr \<lparr>title = emoji @ ascii '' '' @ formatLabel, value' = ascii ''N/A''\<rparr>
      | Some rating \<Rightarrow>
          if truthy rating
          then (case py_format py_repr rating of
                  Inl x \<Rightarrow>
                    if x = AttributeError \<or> x = TypeError
                    then Inr \<lparr>title = emoji @ ascii '' '' @ formatLabel, value' = ascii ''N/A''\<rparr>
                    else Inl x
                | Inr shown \<Rightarrow>
                    Inr \<lparr>title = emoji @ ascii '' '' @ formatLabel,
                         value' = shown @ ascii '' '' @ [0x1F4C8]\<rparr>)
          else Inr \<lparr>title = emoji @ ascii '' '' @ formatLabel, value' = ascii ''N/A''\<rparr>)"
  by (rule get_rating_line_rating_at)

theorem get_rating_line_field_selection_witness:
  "get_rating_line repr_unused (ascii ''tactics'') [0x1F9E9] (ascii ''Tactics'')
       (JDict [(ascii ''tactics'',
          JDict [(ascii ''last'', JDict [(ascii ''rating'', JInt 7)]),
                 (ascii ''highest'', JDict [(ascii ''rating'', JInt 2100)])])])
     = Inr \<lparr>title = [0x1F9E9] @ ascii '' Tactics'', value' = ascii ''2100'' @ [32, 0x1F4C8]\<rparr> \<and>
   get_rating_line repr_unused (ascii ''tactics'') [0x1F9E9] (ascii ''tactics'')
       (JDict [(ascii ''tactics'',
          JDict [(ascii ''last'', JDict [(ascii ''rating'', JInt 7)]),
                 (ascii ''highest'', JDict [(ascii ''rating'', JInt 2100)])])])
     = Inr \<lparr>title = [0x1F9E9] @ ascii '' tactics'', value' = ascii ''7'' @ [32, 0x1F4C8]\<rparr>"
  using get_rating_line_field_selection [of repr_unused "ascii ''tactics''" "[0x1F9E9]"
      "ascii ''Tactics''" "JDict [(ascii ''tactics'',
          JDict [(ascii ''last'', JDict [(ascii ''rating'', JInt 7)]),
                 (ascii ''highest'', JDict [(ascii ''rating'', JInt 2100)])])]"]
    get_rating_line_field_selection [of repr_unused "ascii ''tactics''" "[0x1F9E9]"
      "ascii ''tactics''" "JDict [(ascii ''tactics'',
          JDict [(ascii ''last'', JDict [(ascii ''rating'', JInt 7)]),
                 (ascii ''highest'', JDict [(ascii ''rating'', JInt 2100)])])]"]
    small_int_within_limit [of 7] small_int_within_limit [of 2100]
  by (simp add: rating_at_def ascii_def str_int_def digits.simps)

text \<open>
  C4, as stated, promises the value \<open>"{R} (trend glyph)"\<close> for every rating number \<open>R\<close> found
  on the path. The rating 0 is found on the path and the value is \<open>N/A\<close>, not \<open>0\<close> followed
  by the glyph; for a rating of 4301 digits there is no value at all, \<^verbatim>\<open>ValueError\<close> is
  raised.
\<close>

theorem get_rating_line_zero_counterexample:
  "rating_at (blitz_payload 0) (ascii ''chess_blitz'') (ascii ''last'') = Some (JInt 0) \<and>
   get_rating_line repr_unused (ascii ''chess_blitz'') [0x26A1] (ascii ''Blitz'') (blitz_payload 0)
     = Inr \<lparr>title = [0x26A1] @ ascii '' Blitz'', value' = ascii ''N/A''\<rparr> \<and>
   ascii ''N/A'' \<noteq> str_int 0 @ ascii '' '' @ [0x1F4C8] \<and>
   rating_at (tactics_payload huge_rating) (ascii ''tactics'') (ascii ''highest'')
     = Some (JInt huge_rating) \<and>
   get_rating_line repr_unused (ascii ''tactics'') [0x1F9E9] (ascii ''Tactics'')
       (tactics_payload huge_rating) = Inl ValueError"
  using huge_rating_beyond_limit huge_rating_nonzero
  by (simp add: get_rating_line_rating_at)
    (simp add: blitz_payload_def tactics_payload_def rating_at_def ascii_def str_int_def
      digits.simps)

text \<open>
  C4, amended. When the rating found on the selected path is an integer \<open>R\<close> other than
  zero and within the digit limit, the value is the decimal digits of \<open>R\<close>, a space and the
  trend glyph; when it is a float other than zero, the value is its \<open>repr\<close>, a space and
  the glyph. A rating of 0 or 0.0 gives the value \<open>N/A\<close>, since presence is tested by truth
  value, and an integer beyond the digit limit makes \<open>get_rating_line\<close> raise
  \<^verbatim>\<open>ValueError\<close>.
\<close>

theorem get_rating_line_present:
  assumes "fld = (if f = ascii ''Tactics'' then ascii ''highest'' else ascii ''last'')"
  shows "(rating_at p k fld = Some (JInt i) \<and> i \<noteq> 0 \<and> \<bar>i\<bar> < 10 ^ int_max_str_digits \<longrightarrow>
            get_rating_line py_repr k e f p
              = Inr \<lparr>title = e @ ascii '' '' @ f,
                     value' = str_int i @ ascii '' '' @ [0x1F4C8]\<rparr>) \<and>
         (rating_at p k fld = Some (JFloat x) \<and> float_bool x \<and> py_repr (JFloat x) = Inr shown \<longrightarrow>
            get_rating_line py_repr k e f p
              = Inr \<lparr>title = e @ ascii '' '' @ f,
                     value' = shown @ ascii '' '' @ [0x1F4C8]\<rparr>) \<and>
         (rating_at p k fld = Some (JInt 0) \<or> rating_at p k fld = Some (JFloat (Finite 0)) \<longrightarrow>
            get_rating_line py_repr k e f p
              = Inr \<lparr>title = e @ ascii '' '' @ f, value' = ascii ''N/A''\<rparr>) \<and>
         (rating_at p k fld = Some (JInt i) \<and> 10 ^ int_max_str_digits \<le> \<bar>i\<bar> \<longrightarrow>
            get_rating_line py_repr k e f p = Inl ValueError)"
proof -
  have "(0::int) < 10 ^ int_max_str_digits"
    by simp
  then have "10 ^ int_max_str_digits \<le> \<bar>i\<bar> \<Longrightarrow> i \<noteq> 0"
    by linarith
  then show ?thesis
    unfolding get_rating_line_rating_at assms [symmetric] within_limit_iff
    by auto
qed

theorem get_rating_line_present_witness:
  "rating_at (blitz_payload 1500) (ascii ''chess_blitz'') (ascii ''last'') = Some (JInt 1500) \<and>
   (1500::int) \<noteq> 0 \<and> \<bar>1500::int\<bar> < 10 ^ int_max_str_digits \<and>
   get_rating_line repr_unused (ascii ''chess_blitz'') [0x26A1] (ascii ''Blitz'') (blitz_payload 1500)
     = Inr \<lparr>title = [0x26A1] @ ascii '' Blitz'', value' = ascii ''1500'' @ [32, 0x1F4C8]\<rparr> \<and>
   int (length (get_adjusted_line
      \<lparr>title = [0x26A1] @ ascii '' Blitz'', value' = ascii ''1500'' @ [32, 0x1F4C8]\<rparr> 52)) = 52"
proof -
  have fld: "ascii ''last'' = (if ascii ''Blitz'' = ascii ''Tactics'' then ascii ''highest''
      else ascii ''last'')"
    by (simp add: ascii_def)
  have found: "rating_at (blitz_payload 1500) (ascii ''chess_blitz'') (ascii ''last'')
      = Some (JInt 1500)"
    by (simp add: blitz_payload_def rating_at_def ascii_def)
  have within: "\<bar>1500::int\<bar> < 10 ^ int_max_str_digits"
    using small_int_within_limit [of 1500] by (simp add: within_limit_iff)
  have "get_rating_line repr_unused (ascii ''chess_blitz'') [0x26A1] (ascii ''Blitz'')
          (blitz_payload 1500)
        = Inr \<lparr>title = [0x26A1] @ ascii '' '' @ ascii ''Blitz'',
               value' = str_int 1500 @ ascii '' '' @ [0x1F4C8]\<rparr>"
    using get_rating_line_present [OF fld, of "blitz_payload 1500" "ascii ''chess_blitz''" 1500
        repr_unused "[0x26A1]" NaN "[]"] found within
    by simp
  moreover have "str_int 1500 = ascii ''1500''"
    by (simp add: str_int_def digits.simps ascii_def)
  ultimately show ?thesis
    using found within by (simp add: ascii_def length_get_adjusted_line)
qed

text \<open>
  C10. When the value on the selected path is falsy, the number 0 in particular, the value
  returned is \<open>N/A\<close>: presence is tested by truth value, not by the key being there.
\<close>

theorem get_rating_line_falsy:
  "rating_at p k (if f = ascii ''Tactics'' then ascii ''highest'' else ascii ''last'') = Some R \<Longrightarrow>
   R = JInt 0 \<or> \<not> truthy R \<Longrightarrow>
     get_rating_line py_repr k e f p = Inr \<lparr>title = e @ ascii '' '' @ f, value' = ascii ''N/A''\<rparr>"
  unfolding get_rating_line_rating_at by auto

theorem get_rating_line_falsy_witness:
  "rating_at (tactics_payload 0) (ascii ''tactics'') (ascii ''highest'') = Some (JInt 0) \<and>
   get_rating_line repr_unused (ascii ''tactics'') [0x1F9E9] (ascii ''Tactics'') (tactics_payload 0)
     = Inr \<lparr>title = [0x1F9E9] @ ascii '' '' @ ascii ''Tactics'', value' = ascii ''N/A''\<rparr>"
proof -
  have found: "rating_at (tactics_payload 0) (ascii ''tactics'')
      (if ascii ''Tactics'' = ascii ''Tactics'' then ascii ''highest'' else ascii ''last'')
      = Some (JInt 0)"
    by (simp add: tactics_payload_def rating_at_def ascii_def)
  have "JInt 0 = JInt 0 \<or> \<not> truthy (JInt 0)" by simp
  from get_rating_line_falsy [OF found this, of repr_unused "[0x1F9E9]"] found
  show ?thesis by simp
qed

section \<open>Properties of the stats fetcher\<close>

lemma user_agent_encodes:
  "headers_encode [(ascii ''User-Agent'', ascii ''chess-com-box-py (@'' @ user @ ascii '')'')]
     = latin1 user"
  by (simp add: headers_encode_def latin1_def ascii_def)

lemma get_chess_com_stats_cases:
  "get_chess_com_stats user w =
     (let rq = HttpGet (STATS_URL user)
                 [(ascii ''User-Agent'', ascii ''chess-com-box-py (@'' @ user @ ascii '')'')] 10;
          w1 = w\<lparr>sent := sent w @ [rq]\<rparr>;
          failed = (\<lambda>msg. (Inr (JDict []),
                      w1\<lparr>stdout := stdout w @ [ascii ''Error fetching Chess.com stats: '' @ msg]\<rparr>));
          ended = (\<lambda>x. case x of RequestException msg \<Rightarrow> failed msg | _ \<Rightarrow> (Inl x, w1))
      in case server w (sent w) rq of
           FailedBefore x \<Rightarrow> ended x
         | FailedAfter x \<Rightarrow> if latin1 user then ended x else (Inl UnicodeEncodeError, w1)
         | Responded r \<Rightarrow>
             if \<not> latin1 user then (Inl UnicodeEncodeError, w1)
             else if 400 \<le> status_code r \<and> status_code r < 600 then failed (status_error r)
             else (case json_body r of Inl x \<Rightarrow> ended x | Inr j \<Rightarrow> (Inr j, w1)))"
  unfolding get_chess_com_stats_def requests_get_def http_send_def request_headers.simps
    user_agent_encodes raise_for_status_def response_json_def py_print_def Let_def
  by (simp split: http_outcome.split sum.split exn.split)

lemma get_chess_com_stats_sent:
  "sent (snd (get_chess_com_stats user w)) =
     sent w @ [HttpGet (STATS_URL user)
                 [(ascii ''User-Agent'', ascii ''chess-com-box-py (@'' @ user @ ascii '')'')] 10]"
  unfolding get_chess_com_stats_cases Let_def
  by (simp split: http_outcome.split sum.split exn.split)

text \<open>
  C7, as stated, has \<open>get_chess_com_stats\<close> never raise for any username, return the empty
  mapping for every non-success status and every failure to parse the body, and return a
  mapping, never null, on success. Four runs against a server that answers: the username
  \<open>U+0100\<close> cannot be encoded in the \<open>User-Agent\<close> header and \<^verbatim>\<open>UnicodeEncodeError\<close> leaves the
  function; the body \<^verbatim>\<open>null\<close> makes it return \<^verbatim>\<open>None\<close>; the status 300 with a JSON object as
  body is no failure, the object is returned and nothing is printed; and the decoder's
  \<^verbatim>\<open>ValueError\<close> for a body with an integer beyond the digit limit leaves the function.
\<close>

theorem get_chess_com_stats_counterexample:
  "fst (get_chess_com_stats [0x100] (bare_world (answering_server 200 (Inr (JDict [])))))
     = Inl UnicodeEncodeError \<and>
   fst (get_chess_com_stats (ascii ''erik'') (bare_world (answering_server 200 (Inr JNull))))
     = Inr JNull \<and>
   fst (get_chess_com_stats (ascii ''erik'')
          (bare_world (answering_server 300 (Inr (blitz_payload 1500)))))
     = Inr (blitz_payload 1500) \<and>
   stdout (snd (get_chess_com_stats (ascii ''erik'')
          (bare_world (answering_server 300 (Inr (blitz_payload 1500)))))) = [] \<and>
   fst (get_chess_com_stats (ascii ''erik'') (bare_world (answering_server 200 (Inl ValueError))))
     = Inl ValueError"
  by (simp add: get_chess_com_stats_cases bare_world_def answering_server_def Let_def)
    (simp add: latin1_def ascii_def)

text \<open>
  C7, amended. For every username \<open>get_chess_com_stats\<close> makes exactly one GET call and
  never retries. It catches \<^verbatim>\<open>RequestException\<close> alone: when the call, the status check
  (which rejects the statuses 400 to 599) or the decoding of the body ends in one, it
  prints one line with the error and returns exactly the empty mapping. Any other exception
  leaves the function: \<^verbatim>\<open>UnicodeEncodeError\<close> when the host is reached and the username has a
  character outside Latin-1, and whatever else the call or the decoder raises. Otherwise it
  prints nothing and returns the decoded body as it is, whatever JSON value that is: a
  mapping only when the body is a JSON object, \<^verbatim>\<open>None\<close> when it is \<^verbatim>\<open>null\<close>.
\<close>

theorem get_chess_com_stats_contract:
  "sent (snd (get_chess_com_stats user w)) =
     sent w @ [HttpGet (STATS_URL user)
                 [(ascii ''User-Agent'', ascii ''chess-com-box-py (@'' @ user @ ascii '')'')] 10] \<and>
   get_chess_com_stats user w =
     (let rq = HttpGet (STATS_URL user)
                 [(ascii ''User-Agent'', ascii ''chess-com-box-py (@'' @ user @ ascii '')'')] 10;
          w1 = w\<lparr>sent := sent w @ [rq]\<rparr>;
          failed = (\<lambda>msg. (Inr (JDict []),
                      w1\<lparr>stdout := stdout w @ [ascii ''Error fetching Chess.com stats: '' @ msg]\<rparr>));
          ended = (\<lambda>x. case x of RequestException msg \<Rightarrow> failed msg | _ \<Rightarrow> (Inl x, w1))
      in case server w (sent w) rq of
           FailedBefore x \<Rightarrow> ended x
         | FailedAfter x \<Rightarrow> if latin1 user then ended x else (Inl UnicodeEncodeError, w1)
         | Responded r \<Rightarrow>
             if \<not> latin1 user then (Inl UnicodeEncodeError, w1)
             else if 400 \<le> status_code r \<and> status_code r < 600 then failed (status_error r)
             else (case json_body r of Inl x \<Rightarrow> ended x | Inr j \<Rightarrow> (Inr j, w1)))"
  using get_chess_com_stats_sent [of user w] get_chess_com_stats_cases [of user w]
  by (rule conjI)

theorem get_chess_com_stats_contract_witness:
  "fst (get_chess_com_stats (ascii ''erik'') (bare_world refusing_server)) = Inr (JDict []) \<and>
   stdout (snd (get_chess_com_stats (ascii ''erik'') (bare_world refusing_server)))
     = [ascii ''Error fetching Chess.com stats: connection refused''] \<and>
   sent (snd (get_chess_com_stats (ascii ''erik'') (bare_world refusing_server)))
     = [HttpGet (ascii ''https://api.chess.com/pub/player/erik/stats'')
          [(ascii ''User-Agent'', ascii ''chess-com-box-py (@erik)'')] 10]"
  using get_chess_com_stats_contract [of "ascii ''erik''" "bare_world refusing_server"]
  by (simp add: bare_world_def refusing_server_def Let_def)
    (simp add: STATS_URL_def ascii_def)

section \<open>Properties of the configuration gate\<close>

lemma REQUIRED_ENVS_distinct:
  "ENV_VAR_GIST_ID \<noteq> ENV_VAR_GITHUB_TOKEN" "ENV_VAR_GIST_ID \<noteq> ENV_VAR_CHESS_COM_USERNAME"
  "ENV_VAR_GITHUB_TOKEN \<noteq> ENV_VAR_CHESS_COM_USERNAME"
  by (simp_all add: ENV_VAR_GIST_ID_def ENV_VAR_GITHUB_TOKEN_def ENV_VAR_CHESS_COM_USERNAME_def
      ascii_def)

lemma main_validation_fails:
  assumes "k \<in> set REQUIRED_ENVS" and "environ w k = None"
  shows "main py_repr w =
           (Inl (SystemExit 1),
            py_print (ascii ''Error: Missing environment variables: '' @ str_join (ascii '', '')
               (filter (\<lambda>env. case environ w env of None \<Rightarrow> True | Some v \<Rightarrow> v = [])
                  REQUIRED_ENVS)) w)"
proof -
  have "k \<in> set (filter (\<lambda>env. case environ w env of None \<Rightarrow> True | Some v \<Rightarrow> v = [])
                  REQUIRED_ENVS)"
    using assms by simp
  then have "filter (\<lambda>env. case environ w env of None \<Rightarrow> True | Some v \<Rightarrow> v = [])
                  REQUIRED_ENVS \<noteq> []"
    by (metis empty_iff empty_set)
  then show ?thesis
    by (simp add: main_def validate_and_init_def Let_def)
qed

text \<open>
  C6. When one of the three required variables is absent from the environment the script
  runs with, the process prints the line that lists the missing names, among them that
  variable, and exits with status 1; no request is sent, neither the stats fetch nor the
  gist update.
\<close>

theorem missing_configuration_exits:
  assumes "k \<in> set REQUIRED_ENVS" and "environ (cli_override argv w) k = None"
  shows "k \<in> set (filter (\<lambda>env. case environ (cli_override argv w) env of
                                  None \<Rightarrow> True | Some v \<Rightarrow> v = []) REQUIRED_ENVS) \<and>
         script py_repr elapsed argv w =
           (Inl (SystemExit 1),
            py_print (ascii ''Error: Missing environment variables: '' @ str_join (ascii '', '')
               (filter (\<lambda>env. case environ (cli_override argv w) env of
                                  None \<Rightarrow> True | Some v \<Rightarrow> v = []) REQUIRED_ENVS))
              (cli_override argv w)) \<and>
         script py_repr elapsed argv w = main py_repr (cli_override argv w) \<and>
         exit_status (fst (script py_repr elapsed argv w)) = 1 \<and>
         sent (snd (script py_repr elapsed argv w)) = sent w"
proof -
  have s: "sent (cli_override argv w) = sent w"
    by (simp add: cli_override_def)
  show ?thesis
    using assms s
    by (simp add: script_def main_validation_fails [OF assms] exit_status_def py_print_def)
qed

theorem missing_configuration_exits_witness:
  "ENV_VAR_GITHUB_TOKEN \<in> set REQUIRED_ENVS \<and>
   script repr_unused (ascii ''0.00'') [ascii ''chess_com_box.py'']
       ((configured_world refusing_server)
          \<lparr>environ := (environ (configured_world refusing_server))(ENV_VAR_GITHUB_TOKEN := None)\<rparr>)
     = (Inl (SystemExit 1),
        (configured_world refusing_server)
          \<lparr>environ := (environ (configured_world refusing_server))(ENV_VAR_GITHUB_TOKEN := None),
           stdout := [ascii ''Error: Missing environment variables: GH_TOKEN'']\<rparr>) \<and>
   sent (snd (script repr_unused (ascii ''0.00'') [ascii ''chess_com_box.py'']
       ((configured_world refusing_server)
          \<lparr>environ := (environ (configured_world refusing_server))(ENV_VAR_GITHUB_TOKEN := None)\<rparr>))) = []"
  using missing_configuration_exits [of ENV_VAR_GITHUB_TOKEN "[ascii ''chess_com_box.py'']"
      "(configured_world refusing_server)
          \<lparr>environ := (environ (configured_world refusing_server))(ENV_VAR_GITHUB_TOKEN := None)\<rparr>"
      repr_unused "ascii ''0.00''"]
    REQUIRED_ENVS_distinct
  by (simp add: REQUIRED_ENVS_def cli_override_def configured_world_def py_print_def)
    (simp add: ascii_def ENV_VAR_GITHUB_TOKEN_def)

section \<open>Properties of the command line\<close>

text \<open>
  C8, as stated, has four command-line tokens (the program name and three arguments)
  override the configuration. With four tokens nothing is overridden: in a process with an
  empty environment the three variables stay unset and the run ends with exit status 1.
\<close>

theorem cli_four_tokens_counterexample:
  "length [ascii ''chess_com_box.py'', ascii ''0123abcd'', ascii ''ghp_token'', ascii ''erik''] = 4 \<and>
   environ (cli_override
       [ascii ''chess_com_box.py'', ascii ''0123abcd'', ascii ''ghp_token'', ascii ''erik'']
       (bare_world refusing_server)) ENV_VAR_GIST_ID = None \<and>
   environ (cli_override
       [ascii ''chess_com_box.py'', ascii ''0123abcd'', ascii ''ghp_token'', ascii ''erik'']
       (bare_world refusing_server)) ENV_VAR_GITHUB_TOKEN = None \<and>
   environ (cli_override
       [ascii ''chess_com_box.py'', ascii ''0123abcd'', ascii ''ghp_token'', ascii ''erik'']
       (bare_world refusing_server)) ENV_VAR_CHESS_COM_USERNAME = None \<and>
   fst (script repr_unused (ascii ''0.00'')
       [ascii ''chess_com_box.py'', ascii ''0123abcd'', ascii ''ghp_token'', ascii ''erik'']
       (bare_world refusing_server)) = Inl (SystemExit 1)"
  by (simp add: cli_override_def bare_world_def script_def main_def validate_and_init_def
      REQUIRED_ENVS_def Let_def)

text \<open>
  C8, amended. The override happens for exactly five command-line tokens, the program
  name included: the tokens at positions 2, 3 and 4 become the gist identifier, the access
  token and the username, the token at position 1 is not read, and every other variable
  keeps its value. For any other number of tokens the arguments are ignored and the
  process is left as it was, so that the configuration is what the environment holds.
  \<open>main\<close> then runs in the resulting process.
\<close>

theorem cli_override_five_tokens:
  "(length argv = 5 \<longrightarrow>
      environ (cli_override argv w) ENV_VAR_GIST_ID = Some (argv ! 2) \<and>
      environ (cli_override argv w) ENV_VAR_GITHUB_TOKEN = Some (argv ! 3) \<and>
      environ (cli_override argv w) ENV_VAR_CHESS_COM_USERNAME = Some (argv ! 4) \<and>
      (\<forall>k. k \<notin> set REQUIRED_ENVS \<longrightarrow> environ (cli_override argv w) k = environ w k)) \<and>
   (length argv \<noteq> 5 \<longrightarrow> cli_override argv w = w) \<and>
   stdout (cli_override argv w) = stdout w \<and>
   sent (cli_override argv w) = sent w \<and>
   server (cli_override argv w) = server w \<and>
   fst (script py_repr elapsed argv w) = fst (main py_repr (cli_override argv w))"
  using REQUIRED_ENVS_distinct
  by (auto simp: cli_override_def REQUIRED_ENVS_def script_def split: prod.split sum.split)

theorem cli_override_five_tokens_witness:
  "length [ascii ''chess_com_box.py'', ascii ''--local'', ascii ''0123abcd'', ascii ''ghp_token'',
           ascii ''erik''] = 5 \<and>
   environ (cli_override
       [ascii ''chess_com_box.py'', ascii ''--local'', ascii ''0123abcd'', ascii ''ghp_token'',
        ascii ''erik''] (bare_world refusing_server)) ENV_VAR_GIST_ID = Some (ascii ''0123abcd'') \<and>
   environ (cli_override
       [ascii ''chess_com_box.py'', ascii ''--local'', ascii ''0123abcd'', ascii ''ghp_token'',
        ascii ''erik''] (bare_world refusing_server)) ENV_VAR_GITHUB_TOKEN = Some (ascii ''ghp_token'') \<and>
   environ (cli_override
       [ascii ''chess_com_box.py'', ascii ''--local'', ascii ''0123abcd'', ascii ''ghp_token'',
        ascii ''erik''] (bare_world refusing_server)) ENV_VAR_CHESS_COM_USERNAME = Some (ascii ''erik'') \<and>
   length [ascii ''chess_com_box.py'', ascii ''0123abcd'', ascii ''ghp_token'', ascii ''erik''] \<noteq> 5 \<and>
   cli_override [ascii ''chess_com_box.py'', ascii ''0123abcd'', ascii ''ghp_token'', ascii ''erik'']
       (bare_world refusing_server) = bare_world refusing_server"
  using cli_override_five_tokens [of
      "[ascii ''chess_com_box.py'', ascii ''--local'', ascii ''0123abcd'', ascii ''ghp_token'',
        ascii ''erik'']" "bare_world refusing_server" repr_unused "ascii ''0.00''"]
    cli_override_five_tokens [of
      "[ascii ''chess_com_box.py'', ascii ''0123abcd'', ascii ''ghp_token'', ascii ''erik'']"
      "bare_world refusing_server" repr_unused "ascii ''0.00''"]
  by simp

section \<open>Properties of the orchestrator\<close>














end
